theory Spec2Isabelle
  imports Main "HOL-Library.Word"
begin

unbundle bit_operations_syntax

section \<open>Register map and constants (PCA9532.h)\<close>

type_synonym u8 = "8 word"

definition REG_INPUT0 :: u8 where "REG_INPUT0 = 0x00"
definition REG_INPUT1 :: u8 where "REG_INPUT1 = 0x01"
definition REG_PSC0 :: u8 where "REG_PSC0 = 0x02"
definition REG_PWM0 :: u8 where "REG_PWM0 = 0x03"
definition REG_PSC1 :: u8 where "REG_PSC1 = 0x04"
definition REG_PWM1 :: u8 where "REG_PWM1 = 0x05"
definition REG_LS0 :: u8 where "REG_LS0 = 0x06"
definition REG_LS1 :: u8 where "REG_LS1 = 0x07"
definition REG_LS2 :: u8 where "REG_LS2 = 0x08"
definition REG_LS3 :: u8 where "REG_LS3 = 0x09"

text \<open>Lower bit of each channel's 2-bit field inside its LS register.\<close>

definition BIT_LS_LED3 :: nat where "BIT_LS_LED3 = 6"
definition BIT_LS_LED2 :: nat where "BIT_LS_LED2 = 4"
definition BIT_LS_LED1 :: nat where "BIT_LS_LED1 = 2"
definition BIT_LS_LED0 :: nat where "BIT_LS_LED0 = 0"
definition BIT_LS_LED7 :: nat where "BIT_LS_LED7 = 6"
definition BIT_LS_LED6 :: nat where "BIT_LS_LED6 = 4"
definition BIT_LS_LED5 :: nat where "BIT_LS_LED5 = 2"
definition BIT_LS_LED4 :: nat where "BIT_LS_LED4 = 0"
definition BIT_LS_LED11 :: nat where "BIT_LS_LED11 = 6"
definition BIT_LS_LED10 :: nat where "BIT_LS_LED10 = 4"
definition BIT_LS_LED9 :: nat where "BIT_LS_LED9 = 2"
definition BIT_LS_LED8 :: nat where "BIT_LS_LED8 = 0"
definition BIT_LS_LED15 :: nat where "BIT_LS_LED15 = 6"
definition BIT_LS_LED14 :: nat where "BIT_LS_LED14 = 4"
definition BIT_LS_LED13 :: nat where "BIT_LS_LED13 = 2"
definition BIT_LS_LED12 :: nat where "BIT_LS_LED12 = 0"

definition LS_STATE_OFF :: u8 where "LS_STATE_OFF = 0x00"
definition LS_STATE_ON :: u8 where "LS_STATE_ON = 0x01"
definition LS_STATE_BLNK0 :: u8 where "LS_STATE_BLNK0 = 0x02"
definition LS_STATE_BLNK1 :: u8 where "LS_STATE_BLNK1 = 0x03"


section \<open>The bus transport (TwoWire) and the chip behind it\<close>

text \<open>
  The driver talks to the chip only through a \<open>TwoWire\<close> object and the chip is
  hardware: neither is part of the repository. The bus is modelled as a recording fake.
\<close>

text \<open>
  Modelled from the spec: the state of the bus transport (section 6), which the
  repository only uses. It holds the transmit and receive buffers of the transport, the
  list of completed write transactions (device address and bytes sent, oldest first),
  a script of forced read responses with which a failed or garbled read is simulated,
  and the PCA9532 attached to the bus: its address, register pointer and registers.
\<close>

record TwoWire =
  txAddress :: u8
  txBuffer :: "u8 list"
  rxBuffer :: "u8 list"
  written :: "(u8 \<times> u8 list) list"
  rxScript :: "u8 list list"
  chipAddress :: u8
  chipPointer :: u8
  chipRegs :: "u8 \<Rightarrow> u8"

text \<open>
  Modelled from the spec: the chip side of a write transaction (register map of
  section 6). The first byte of a transaction selects the register; a second byte is
  stored there when the register is one of the eight writable ones (0x02 to 0x09). The
  two input registers are read-only and there is no register above 0x09, so such a write
  changes nothing.
\<close>

definition chip_receive :: "u8 list \<Rightarrow> TwoWire \<Rightarrow> TwoWire" where
  "chip_receive bs w =
     (case bs of
        [] \<Rightarrow> w
      | r # ds \<Rightarrow>
          (case ds of
             [] \<Rightarrow> w\<lparr>chipPointer := r\<rparr>
           | d # _ \<Rightarrow>
               w\<lparr>chipPointer := r,
                 chipRegs := (if 2 \<le> r \<and> r \<le> 9 then (chipRegs w)(r := d) else chipRegs w)\<rparr>))"

text \<open>
  Modelled from the spec: \<open>begin()\<close> of the transport contract (section 6), the
  one-time bus initialisation. It empties both buffers.
\<close>

definition Wire_begin :: "TwoWire \<Rightarrow> TwoWire" where
  "Wire_begin w = w\<lparr>txBuffer := [], rxBuffer := []\<rparr>"

text \<open>
  Modelled from the spec: \<open>beginTransmission(address)\<close> of the transport contract
  (section 6). It opens a write transaction to the address.
\<close>

definition beginTransmission :: "u8 \<Rightarrow> TwoWire \<Rightarrow> TwoWire" where
  "beginTransmission address w = w\<lparr>txAddress := address, txBuffer := []\<rparr>"

text \<open>
  Modelled from the spec: \<open>write(byte)\<close> of the transport contract (section 6). It
  queues one byte for transmission.
\<close>

definition Wire_write :: "u8 \<Rightarrow> TwoWire \<Rightarrow> TwoWire" where
  "Wire_write b w = w\<lparr>txBuffer := txBuffer w @ [b]\<rparr>"

text \<open>
  Modelled from the spec: \<open>endTransmission()\<close> of the transport contract (section 6).
  It sends the queued bytes, which closes the write transaction, and returns a status:
  0 when the chip at that address acknowledged, 2 when no device answered.
\<close>

definition endTransmission :: "TwoWire \<Rightarrow> u8 \<times> TwoWire" where
  "endTransmission w =
     (let w' = w\<lparr>written := written w @ [(txAddress w, txBuffer w)], txBuffer := []\<rparr>
      in if txAddress w = chipAddress w
         then (0, chip_receive (txBuffer w) w')
         else (2, w'))"

text \<open>
  Modelled from the spec: \<open>requestFrom(address, count)\<close> of the transport contract
  (section 6). It fills the receive buffer and returns the number of bytes received.
  While the script of forced responses is not empty its head is delivered, whatever the
  chip holds; otherwise the addressed chip answers with the register its pointer selects,
  and nothing is received from an address where no chip is.
\<close>

definition requestFrom :: "u8 \<Rightarrow> u8 \<Rightarrow> TwoWire \<Rightarrow> u8 \<times> TwoWire" where
  "requestFrom address quantity w =
     (case rxScript w of
        bs # rest \<Rightarrow> (of_nat (length bs), w\<lparr>rxBuffer := bs, rxScript := rest\<rparr>)
      | [] \<Rightarrow>
          (if address = chipAddress w
           then (let bs = take (unat quantity) [chipRegs w (chipPointer w)]
                 in (of_nat (length bs), w\<lparr>rxBuffer := bs\<rparr>))
           else (0, w\<lparr>rxBuffer := []\<rparr>)))"

text \<open>
  Modelled from the spec: \<open>available()\<close> of the transport contract (section 6), the
  number of bytes ready to read.
\<close>

definition available :: "TwoWire \<Rightarrow> int" where
  "available w = int (length (rxBuffer w))"

text \<open>
  Modelled from the spec: \<open>read()\<close> of the transport contract (section 6). It consumes
  one available byte and returns it as an \<open>int\<close>, or returns -1 when there is none.
\<close>

definition Wire_read :: "TwoWire \<Rightarrow> int \<times> TwoWire" where
  "Wire_read w =
     (case rxBuffer w of
        [] \<Rightarrow> (- 1, w)
      | b # bs \<Rightarrow> (uint b, w\<lparr>rxBuffer := bs\<rparr>))"


section \<open>The driver object (class PCA9532)\<close>

type_synonym wire_ptr = nat

record PCA9532 =
  regPwm1 :: u8
  regPwm2 :: u8
  storedRegLs0 :: u8
  storedRegLs1 :: u8
  storedRegLs2 :: u8
  storedRegLs3 :: u8
  deviceAddress :: u8
  wire :: wire_ptr

text \<open>
  The state a method runs in: the driver object and the \<open>TwoWire\<close> objects of the
  program, by address. The driver holds a pointer, so two drivers may share one bus.
\<close>

record machine =
  driver :: PCA9532
  bus :: "wire_ptr \<Rightarrow> TwoWire"

text \<open>The object \<open>_wire\<close> points to, and a call \<open>_wire->f(...)\<close> on it.\<close>

definition the_wire :: "machine \<Rightarrow> TwoWire" where
  "the_wire m = bus m (wire (driver m))"

definition wire_call :: "(TwoWire \<Rightarrow> TwoWire) \<Rightarrow> machine \<Rightarrow> machine" where
  "wire_call f m = m\<lparr>bus := (bus m)(wire (driver m) := f (the_wire m))\<rparr>"

text \<open>The four saved LS bytes of a driver object.\<close>

definition saved :: "PCA9532 \<Rightarrow> u8 \<times> u8 \<times> u8 \<times> u8" where
  "saved d = (storedRegLs0 d, storedRegLs1 d, storedRegLs2 d, storedRegLs3 d)"

text \<open>
  The constructor assigns the two PWM register addresses and nothing else: the other
  members keep what the object's storage held, which is the first argument.
\<close>

definition PCA9532_ctor :: "PCA9532 \<Rightarrow> u8 \<Rightarrow> u8 \<Rightarrow> PCA9532" where
  "PCA9532_ctor storage regPwm1' regPwm2' =
     storage\<lparr>regPwm1 := regPwm1', regPwm2 := regPwm2'\<rparr>"

definition PCA9532_begin :: "u8 \<Rightarrow> wire_ptr \<Rightarrow> machine \<Rightarrow> machine" where
  "PCA9532_begin deviceAddress' wire' m =
     (let m1 = m\<lparr>driver := (driver m)\<lparr>deviceAddress := deviceAddress'\<rparr>\<rparr>;
          m2 = m1\<lparr>driver := (driver m1)\<lparr>wire := wire'\<rparr>\<rparr>
      in wire_call Wire_begin m2)"

definition writeReg :: "u8 \<Rightarrow> u8 \<Rightarrow> machine \<Rightarrow> machine" where
  "writeReg registerAddress data m =
     (let m1 = wire_call (beginTransmission (deviceAddress (driver m))) m;
          m2 = wire_call (Wire_write registerAddress) m1;
          m3 = wire_call (Wire_write data) m2
      in wire_call (\<lambda>w. snd (endTransmission w)) m3)"

text \<open>
  \<open>readReg\<close> returns \<open>uint8_t\<close>: the \<open>int\<close> that \<open>read()\<close> returns and the \<open>-1\<close> of
  the failure branch are both converted to a byte.
\<close>

definition readReg :: "u8 \<Rightarrow> machine \<Rightarrow> u8 \<times> machine" where
  "readReg registerAddress m =
     (let m1 = wire_call (beginTransmission (deviceAddress (driver m))) m;
          m2 = wire_call (Wire_write registerAddress) m1;
          m3 = wire_call (\<lambda>w. snd (endTransmission w)) m2;
          m4 = wire_call (\<lambda>w. snd (requestFrom (deviceAddress (driver m3)) 1 w)) m3
      in if available (the_wire m4) = 1
         then (word_of_int (fst (Wire_read (the_wire m4))),
               wire_call (\<lambda>w. snd (Wire_read w)) m4)
         else (word_of_int (- 1), m4))"

definition turnOn :: "machine \<Rightarrow> machine" where
  "turnOn m =
     (let m1 = writeReg REG_LS0 (storedRegLs0 (driver m)) m;
          m2 = writeReg REG_LS1 (storedRegLs1 (driver m1)) m1;
          m3 = writeReg REG_LS2 (storedRegLs2 (driver m2)) m2
      in writeReg REG_LS3 (storedRegLs3 (driver m3)) m3)"

definition turnOff :: "machine \<Rightarrow> machine" where
  "turnOff m =
     (let (v0, m) = readReg REG_LS0 m;
          m = m\<lparr>driver := (driver m)\<lparr>storedRegLs0 := v0\<rparr>\<rparr>;
          m = writeReg REG_LS0 LS_STATE_OFF m;
          (v1, m) = readReg REG_LS1 m;
          m = m\<lparr>driver := (driver m)\<lparr>storedRegLs1 := v1\<rparr>\<rparr>;
          m = writeReg REG_LS1 LS_STATE_OFF m;
          (v2, m) = readReg REG_LS2 m;
          m = m\<lparr>driver := (driver m)\<lparr>storedRegLs2 := v2\<rparr>\<rparr>;
          m = writeReg REG_LS2 LS_STATE_OFF m;
          (v3, m) = readReg REG_LS3 m;
          m = m\<lparr>driver := (driver m)\<lparr>storedRegLs3 := v3\<rparr>\<rparr>
      in writeReg REG_LS3 LS_STATE_OFF m)"

definition setPwm :: "u8 \<Rightarrow> u8 \<Rightarrow> machine \<Rightarrow> machine" where
  "setPwm regPwm pwm m = writeReg regPwm pwm m"

definition setGrpPwm :: "u8 \<Rightarrow> machine \<Rightarrow> machine" where
  "setGrpPwm pwm m = writeReg REG_PWM1 pwm (writeReg REG_PWM0 pwm m)"

definition setBlinking :: "u8 \<Rightarrow> u8 \<Rightarrow> machine \<Rightarrow> machine" where
  "setBlinking regPsc blinkPeriod m = writeReg regPsc blinkPeriod m"

text \<open>
  The shifts and the bitwise operations of \<open>setLsState\<close> and \<open>setLsStateAll\<close> are
  carried out on \<open>int\<close>, to which C++ promotes the \<open>uint8_t\<close> operands, and the result is
  cut to a byte on assignment. (A shift by the width of \<open>int\<close> or more is undefined in
  C++; the model gives the mathematical value there.)
\<close>

definition setLsState :: "u8 \<Rightarrow> u8 \<Rightarrow> u8 \<Rightarrow> machine \<Rightarrow> machine" where
  "setLsState state regLs lsBit m =
     (let (prevReg, m1) = readReg regLs m;
          newReg = (word_of_int (uint prevReg AND NOT (push_bit (unat lsBit) 3)) :: u8);
          newReg = (word_of_int (uint newReg OR push_bit (unat lsBit) (uint state)) :: u8)
      in writeReg regLs newReg m1)"

definition allReg :: "u8 \<Rightarrow> nat \<Rightarrow> nat \<Rightarrow> nat \<Rightarrow> nat \<Rightarrow> u8" where
  "allReg state b3 b2 b1 b0 =
     word_of_int (push_bit b3 (uint state) OR push_bit b2 (uint state)
                  OR push_bit b1 (uint state) OR push_bit b0 (uint state))"

definition setLsStateAll :: "u8 \<Rightarrow> machine \<Rightarrow> machine" where
  "setLsStateAll state m =
     (let newReg = allReg state BIT_LS_LED3 BIT_LS_LED2 BIT_LS_LED1 BIT_LS_LED0;
          m = writeReg REG_LS0 newReg m;
          newReg = allReg state BIT_LS_LED7 BIT_LS_LED6 BIT_LS_LED5 BIT_LS_LED4;
          m = writeReg REG_LS1 newReg m;
          newReg = allReg state BIT_LS_LED11 BIT_LS_LED10 BIT_LS_LED9 BIT_LS_LED8;
          m = writeReg REG_LS2 newReg m;
          newReg = allReg state BIT_LS_LED15 BIT_LS_LED14 BIT_LS_LED13 BIT_LS_LED12
      in writeReg REG_LS3 newReg m)"


section \<open>Sequences of public operations\<close>

datatype operation =
    Begin u8 wire_ptr
  | TurnOn
  | TurnOff
  | SetPwm u8 u8
  | SetGrpPwm u8
  | SetBlinking u8 u8
  | SetLsState u8 u8 u8
  | SetLsStateAll u8

fun perform :: "operation \<Rightarrow> machine \<Rightarrow> machine" where
  "perform (Begin a p) m = PCA9532_begin a p m"
| "perform TurnOn m = turnOn m"
| "perform TurnOff m = turnOff m"
| "perform (SetPwm r v) m = setPwm r v m"
| "perform (SetGrpPwm v) m = setGrpPwm v m"
| "perform (SetBlinking r v) m = setBlinking r v m"
| "perform (SetLsState s r b) m = setLsState s r b m"
| "perform (SetLsStateAll s) m = setLsStateAll s m"

fun run :: "operation list \<Rightarrow> machine \<Rightarrow> machine" where
  "run [] m = m"
| "run (x # xs) m = run xs (perform x m)"


section \<open>The effect of one register access on the bus\<close>

text \<open>
  \<open>wr a r d\<close> is what the four transport calls of \<open>writeReg\<close> do to the bus, \<open>rd a r\<close>
  what the calls of \<open>readReg\<close> up to and including \<open>requestFrom\<close> do. \<open>rdv\<close> is the
  byte \<open>readReg\<close> then returns and \<open>rdw\<close> the bus it leaves behind.
\<close>

definition wr :: "u8 \<Rightarrow> u8 \<Rightarrow> u8 \<Rightarrow> TwoWire \<Rightarrow> TwoWire" where
  "wr a r d w = snd (endTransmission (Wire_write d (Wire_write r (beginTransmission a w))))"

definition rd :: "u8 \<Rightarrow> u8 \<Rightarrow> TwoWire \<Rightarrow> TwoWire" where
  "rd a r w =
     snd (requestFrom a 1 (snd (endTransmission (Wire_write r (beginTransmission a w)))))"

definition rdv :: "u8 \<Rightarrow> u8 \<Rightarrow> TwoWire \<Rightarrow> u8" where
  "rdv a r w = (if available (rd a r w) = 1 then hd (rxBuffer (rd a r w)) else 0xFF)"

definition rdw :: "u8 \<Rightarrow> u8 \<Rightarrow> TwoWire \<Rightarrow> TwoWire" where
  "rdw a r w = (if available (rd a r w) = 1 then snd (Wire_read (rd a r w)) else rd a r w)"

text \<open>The bus as \<open>readReg\<close> finds it right after its 1-byte request.\<close>

definition after_request :: "u8 \<Rightarrow> machine \<Rightarrow> TwoWire" where
  "after_request r m = rd (deviceAddress (driver m)) r (the_wire m)"


section \<open>A test bench\<close>

text \<open>
  A driver constructed over storage filled with the byte \<open>v\<close>, then initialised with
  \<open>begin(0x60, &Wire)\<close>, on a bus whose chip answers at address 0x60 and holds the
  registers \<open>regs\<close>; \<open>script\<close> lists the read responses to force.
\<close>

definition blank_wire :: "(u8 \<Rightarrow> u8) \<Rightarrow> u8 list list \<Rightarrow> TwoWire" where
  "blank_wire regs script =
     \<lparr>txAddress = 0, txBuffer = [], rxBuffer = [], written = [], rxScript = script,
      chipAddress = 0x60, chipPointer = 0, chipRegs = regs\<rparr>"

definition blank_storage :: "u8 \<Rightarrow> PCA9532" where
  "blank_storage v =
     \<lparr>regPwm1 = v, regPwm2 = v, storedRegLs0 = v, storedRegLs1 = v, storedRegLs2 = v,
      storedRegLs3 = v, deviceAddress = v, wire = 0\<rparr>"

definition bench :: "u8 \<Rightarrow> (u8 \<Rightarrow> u8) \<Rightarrow> u8 list list \<Rightarrow> machine" where
  "bench v regs script =
     PCA9532_begin 0x60 0
       \<lparr>driver = PCA9532_ctor (blank_storage v) REG_PWM0 REG_PWM1,
        bus = (\<lambda>p. blank_wire regs script)\<rparr>"

definition zero_regs :: "u8 \<Rightarrow> u8" where
  "zero_regs r = 0"

definition full_regs :: "u8 \<Rightarrow> u8" where
  "full_regs r = 0xFF"

definition demo_regs :: "u8 \<Rightarrow> u8" where
  "demo_regs r = (if r = 6 then 0x1B else if r = 7 then 0xE4 else if r = 8 then 0x55
                  else if r = 9 then 0xFF else 0)"


section \<open>Register addresses on the bus\<close>

text \<open>
  Every transaction the driver sends starts with a register address. \<open>reg_in_map\<close>
  says that this address is one of the ten of the register map; \<open>arg_in_map\<close> says the
  same of the register address a caller hands to an operation.
\<close>

fun reg_in_map :: "u8 \<times> u8 list \<Rightarrow> bool" where
  "reg_in_map (a, []) = False"
| "reg_in_map (a, r # ds) = (r \<le> REG_LS3)"

fun arg_in_map :: "operation \<Rightarrow> bool" where
  "arg_in_map (SetPwm r v) = (r \<le> REG_LS3)"
| "arg_in_map (SetBlinking r v) = (r \<le> REG_LS3)"
| "arg_in_map (SetLsState s r b) = (r \<le> REG_LS3)"
| "arg_in_map x = True"

text \<open>
  \<open>extends m m'\<close>: on every bus, the transactions of \<open>m'\<close> are those of \<open>m\<close> followed
  by transactions whose register address is in the map.
\<close>

definition extends :: "machine \<Rightarrow> machine \<Rightarrow> bool" where
  "extends m m' =
     (\<forall>p. \<exists>new. written (bus m' p) = written (bus m p) @ new \<and> list_all reg_in_map new)"


section \<open>Basic facts\<close>

lemmas reg_defs =
  REG_INPUT0_def REG_INPUT1_def REG_PSC0_def REG_PWM0_def REG_PSC1_def REG_PWM1_def
  REG_LS0_def REG_LS1_def REG_LS2_def REG_LS3_def

lemmas bit_ls_defs =
  BIT_LS_LED0_def BIT_LS_LED1_def BIT_LS_LED2_def BIT_LS_LED3_def
  BIT_LS_LED4_def BIT_LS_LED5_def BIT_LS_LED6_def BIT_LS_LED7_def
  BIT_LS_LED8_def BIT_LS_LED9_def BIT_LS_LED10_def BIT_LS_LED11_def
  BIT_LS_LED12_def BIT_LS_LED13_def BIT_LS_LED14_def BIT_LS_LED15_def

lemmas ls_state_defs =
  LS_STATE_OFF_def LS_STATE_ON_def LS_STATE_BLNK0_def LS_STATE_BLNK1_def

lemmas wire_defs = endTransmission_def Let_def Wire_write_def beginTransmission_def
  chip_receive_def requestFrom_def Wire_read_def available_def


lemma driver_wire_call [simp]: "driver (wire_call f m) = driver m"
  by (simp add: wire_call_def)

lemma the_wire_wire_call [simp]: "the_wire (wire_call f m) = f (the_wire m)"
  by (simp add: wire_call_def the_wire_def)

lemma bus_wire_call:
  "bus (wire_call f m) p = (if p = wire (driver m) then f (the_wire m) else bus m p)"
  by (simp add: wire_call_def)

lemma wire_call_wire_call: "wire_call f (wire_call g m) = wire_call (\<lambda>w. f (g w)) m"
  by (simp add: wire_call_def the_wire_def)

text \<open>Each register access is one call on the bus object.\<close>

lemma writeReg_eq: "writeReg r d m = wire_call (wr (deviceAddress (driver m)) r d) m"
  by (simp add: writeReg_def Let_def wire_call_wire_call wr_def [abs_def])

lemma readReg_eq:
  "readReg r m = (rdv (deviceAddress (driver m)) r (the_wire m),
                  wire_call (rdw (deviceAddress (driver m)) r) m)"
proof -
  let ?a = "deviceAddress (driver m)"
  have conv: "(word_of_int (fst (Wire_read w)) :: u8) = hd (rxBuffer w)"
    if "available w = 1" for w
    using that by (cases "rxBuffer w") (simp_all add: Wire_read_def available_def)
  show ?thesis
  proof (cases "available (rd ?a r (the_wire m)) = 1")
    case True
    then show ?thesis
      by (simp add: readReg_def Let_def wire_call_wire_call rd_def [symmetric] rdv_def rdw_def
          conv wire_call_def the_wire_def)
  next
    case False
    then show ?thesis
      by (simp add: readReg_def Let_def wire_call_wire_call rd_def [symmetric] rdv_def rdw_def
          wire_call_def the_wire_def)
  qed
qed

lemma wr_written [simp]: "written (wr a r d w) = written w @ [(a, [r, d])]"
  by (simp add: wr_def wire_defs)

lemma wr_rxScript [simp]: "rxScript (wr a r d w) = rxScript w"
  by (simp add: wr_def wire_defs)

lemma wr_chipAddress [simp]: "chipAddress (wr a r d w) = chipAddress w"
  by (simp add: wr_def wire_defs)

lemma wr_chipRegs:
  "chipRegs (wr a r d w) =
     (if a = chipAddress w \<and> 2 \<le> r \<and> r \<le> 9 then (chipRegs w)(r := d) else chipRegs w)"
  by (simp add: wr_def wire_defs)

lemma rd_written [simp]: "written (rd a r w) = written w @ [(a, [r])]"
  by (simp add: rd_def wire_defs split: list.splits)

lemma rd_rxScript [simp]: "rxScript (rd a r w) = tl (rxScript w)"
  by (simp add: rd_def wire_defs split: list.splits)

lemma rd_chipAddress [simp]: "chipAddress (rd a r w) = chipAddress w"
  by (simp add: rd_def wire_defs split: list.splits)

lemma rd_chipRegs [simp]: "chipRegs (rd a r w) = chipRegs w"
  by (simp add: rd_def wire_defs split: list.splits)

lemma rd_rxBuffer:
  "rxBuffer (rd a r w) =
     (case rxScript w of bs # rest \<Rightarrow> bs
      | [] \<Rightarrow> if a = chipAddress w then [chipRegs w r] else [])"
  by (simp add: rd_def wire_defs split: list.splits)

lemma Wire_read_fields [simp]:
  "written (snd (Wire_read w)) = written w"
  "rxScript (snd (Wire_read w)) = rxScript w"
  "chipAddress (snd (Wire_read w)) = chipAddress w"
  "chipRegs (snd (Wire_read w)) = chipRegs w"
  by (simp_all add: Wire_read_def split: list.splits)

lemma rdw_written [simp]: "written (rdw a r w) = written w @ [(a, [r])]"
  by (simp add: rdw_def)

lemma rdw_rxScript [simp]: "rxScript (rdw a r w) = tl (rxScript w)"
  by (simp add: rdw_def)

lemma rdw_chipAddress [simp]: "chipAddress (rdw a r w) = chipAddress w"
  by (simp add: rdw_def)

lemma rdw_chipRegs [simp]: "chipRegs (rdw a r w) = chipRegs w"
  by (simp add: rdw_def)

text \<open>On a bus with no forced response, a read of the chip returns the register.\<close>

lemma rdv_healthy: "rxScript w = [] \<Longrightarrow> a = chipAddress w \<Longrightarrow> rdv a r w = chipRegs w r"
  by (simp add: rdv_def rd_rxBuffer available_def)

lemma driver_writeReg [simp]: "driver (writeReg r d m) = driver m"
  by (simp add: writeReg_eq)

lemma driver_readReg [simp]: "driver (snd (readReg r m)) = driver m"
  by (simp add: readReg_eq)

lemma the_wire_writeReg:
  "the_wire (writeReg r d m) = wr (deviceAddress (driver m)) r d (the_wire m)"
  by (simp add: writeReg_eq)

lemma the_wire_readReg:
  "the_wire (snd (readReg r m)) = rdw (deviceAddress (driver m)) r (the_wire m)"
  by (simp add: readReg_eq)

lemma driver_turnOn [simp]: "driver (turnOn m) = driver m"
  by (simp add: turnOn_def Let_def)

lemma the_wire_turnOn:
  "the_wire (turnOn m) =
     (let a = deviceAddress (driver m) in
      wr a REG_LS3 (storedRegLs3 (driver m)) (wr a REG_LS2 (storedRegLs2 (driver m))
        (wr a REG_LS1 (storedRegLs1 (driver m)) (wr a REG_LS0 (storedRegLs0 (driver m))
          (the_wire m)))))"
  by (simp add: turnOn_def Let_def the_wire_writeReg)

lemma driver_turnOff:
  "driver (turnOff m) =
     (let a = deviceAddress (driver m); w0 = the_wire m;
          w1 = wr a REG_LS0 0 (rdw a REG_LS0 w0);
          w2 = wr a REG_LS1 0 (rdw a REG_LS1 w1);
          w3 = wr a REG_LS2 0 (rdw a REG_LS2 w2)
      in (driver m)\<lparr>storedRegLs0 := rdv a REG_LS0 w0, storedRegLs1 := rdv a REG_LS1 w1,
            storedRegLs2 := rdv a REG_LS2 w2, storedRegLs3 := rdv a REG_LS3 w3\<rparr>)"
  by (simp add: turnOff_def Let_def writeReg_eq readReg_eq LS_STATE_OFF_def wire_call_def
      the_wire_def)

lemma the_wire_turnOff:
  "the_wire (turnOff m) =
     (let a = deviceAddress (driver m) in
       wr a REG_LS3 0 (rdw a REG_LS3 (wr a REG_LS2 0 (rdw a REG_LS2
        (wr a REG_LS1 0 (rdw a REG_LS1 (wr a REG_LS0 0 (rdw a REG_LS0 (the_wire m)))))))))"
  by (simp add: turnOff_def Let_def writeReg_eq readReg_eq LS_STATE_OFF_def wire_call_def
      the_wire_def)

lemma bench_simps:
  "driver (bench v regs script) =
     \<lparr>regPwm1 = 3, regPwm2 = 5, storedRegLs0 = v, storedRegLs1 = v, storedRegLs2 = v,
      storedRegLs3 = v, deviceAddress = 0x60, wire = 0\<rparr>"
  "the_wire (bench v regs script) = blank_wire regs script"
  by (simp_all add: bench_def PCA9532_begin_def Let_def PCA9532_ctor_def blank_storage_def
      reg_defs blank_wire_def Wire_begin_def wire_call_def the_wire_def)

text \<open>
  The byte \<open>setLsState\<close> writes, on bytes: the promotion to \<open>int\<close> and the cut back to
  a byte change nothing.
\<close>

lemma setLsState_eq:
  "setLsState state regLs lsBit m =
     writeReg regLs
       ((fst (readReg regLs m) AND NOT (push_bit (unat lsBit) 3)) OR push_bit (unat lsBit) state)
       (snd (readReg regLs m))"
proof -
  have "(word_of_int (uint (word_of_int (uint p AND NOT (push_bit n 3)) :: u8)
                      OR push_bit n (uint s)) :: u8)
        = (p AND NOT (push_bit n 3)) OR push_bit n s" for p s :: u8 and n
    by (rule bit_word_eqI) (auto simp: bit_simps)
  then show ?thesis
    by (simp add: setLsState_def Let_def split_def)
qed

lemma low2: "s \<le> 3 \<Longrightarrow> s AND 3 = s" for s :: u8
proof -
  assume "s \<le> 3"
  then have "s < 2 ^ 2" by (simp add: word_le_nat_alt word_less_nat_alt)
  then have "s AND mask 2 = s" by (rule less_mask_eq)
  then show ?thesis by (simp add: mask_eq_exp_minus_1)
qed

lemma field_kept:
  "s \<le> 3 \<Longrightarrow>
   ((p AND NOT (push_bit b 3)) OR push_bit b s) AND NOT (push_bit b 3)
     = p AND NOT (push_bit b (3 :: u8))" for p s :: u8 and b :: nat
proof -
  assume "s \<le> 3"
  then have s: "s AND 3 = s" by (rule low2)
  have "push_bit b s AND NOT (push_bit b 3) = 0"
    apply (subst s [symmetric])
    apply (rule bit_word_eqI)
    apply (auto simp: bit_simps)
    done
  then show ?thesis
    by (simp add: bit.conj_disj_distrib2 and.assoc)
qed


lemma driver_setPwm [simp]: "driver (setPwm r v m) = driver m"
  by (simp add: setPwm_def)

lemma driver_setGrpPwm [simp]: "driver (setGrpPwm v m) = driver m"
  by (simp add: setGrpPwm_def)

lemma driver_setBlinking [simp]: "driver (setBlinking r v m) = driver m"
  by (simp add: setBlinking_def)

lemma driver_setLsState [simp]: "driver (setLsState s r b m) = driver m"
  by (simp add: setLsState_eq)

lemma driver_setLsStateAll [simp]: "driver (setLsStateAll s m) = driver m"
  by (simp add: setLsStateAll_def Let_def)

lemma driver_begin:
  "driver (PCA9532_begin a p m) = (driver m)\<lparr>deviceAddress := a, wire := p\<rparr>"
  by (simp add: PCA9532_begin_def Let_def)

text \<open>The byte \<open>setLsStateAll\<close> builds, on bytes.\<close>

lemma allReg_eq:
  "allReg s 6 4 2 0 = s OR push_bit 2 s OR push_bit 4 s OR push_bit 6 s"
  unfolding allReg_def
  by (rule bit_word_eqI) (auto simp: bit_simps)

lemma the_wire_setLsStateAll:
  "the_wire (setLsStateAll s m) =
     (let a = deviceAddress (driver m); b = s OR push_bit 2 s OR push_bit 4 s OR push_bit 6 s in
      wr a REG_LS3 b (wr a REG_LS2 b (wr a REG_LS1 b (wr a REG_LS0 b (the_wire m)))))"
  by (simp add: setLsStateAll_def Let_def the_wire_writeReg bit_ls_defs allReg_eq)

text \<open>Every operation but \<open>turnOff\<close> keeps the saved bytes.\<close>

lemma saved_perform: "TurnOff \<noteq> x \<Longrightarrow> saved (driver (perform x m)) = saved (driver m)"
  by (cases x) (simp_all add: driver_begin saved_def)

lemma saved_run: "TurnOff \<notin> set ops \<Longrightarrow> saved (driver (run ops m)) = saved (driver m)"
  by (induction ops arbitrary: m) (simp_all add: saved_perform)

text \<open>Register addresses: each step of an operation extends the transactions.\<close>

lemma extends_refl: "extends m m"
  by (simp add: extends_def)

lemma extends_same_bus: "extends m m1 \<Longrightarrow> extends m (m1\<lparr>driver := d\<rparr>)"
  by (simp add: extends_def)

lemma extends_wire_call:
  assumes "extends m m1"
    and "written (f (the_wire m1)) = written (the_wire m1) @ new" and "list_all reg_in_map new"
  shows "extends m (wire_call f m1)"
  unfolding extends_def
proof
  fix p
  from assms(1) obtain old where old:
    "written (bus m1 p) = written (bus m p) @ old" "list_all reg_in_map old"
    unfolding extends_def by blast
  show "\<exists>new. written (bus (wire_call f m1) p) = written (bus m p) @ new
          \<and> list_all reg_in_map new"
  proof (cases "p = wire (driver m1)")
    case True
    with old assms(2,3) have "written (bus (wire_call f m1) p) = written (bus m p) @ (old @ new)"
      "list_all reg_in_map (old @ new)"
      by (simp_all add: bus_wire_call the_wire_def)
    then show ?thesis by blast
  next
    case False
    with old show ?thesis by (auto simp: bus_wire_call)
  qed
qed

lemma extends_writeReg: "extends m m1 \<Longrightarrow> r \<le> REG_LS3 \<Longrightarrow> extends m (writeReg r d m1)"
  unfolding writeReg_eq
  by (rule extends_wire_call [where new = "[(deviceAddress (driver m1), [r, d])]"]) simp_all

lemma extends_readReg: "extends m m1 \<Longrightarrow> r \<le> REG_LS3 \<Longrightarrow> extends m (snd (readReg r m1))"
  unfolding readReg_eq snd_conv
  by (rule extends_wire_call [where new = "[(deviceAddress (driver m1), [r])]"]) simp_all

lemma extends_begin: "extends m m1 \<Longrightarrow> extends m (PCA9532_begin a p m1)"
  unfolding PCA9532_begin_def Let_def
  by (rule extends_wire_call [where new = "[]"])
     (simp_all add: extends_same_bus Wire_begin_def)

lemmas extends_intros = extends_writeReg extends_readReg extends_same_bus extends_begin

lemma extends_perform: "arg_in_map x \<Longrightarrow> extends m m1 \<Longrightarrow> extends m (perform x m1)"
proof (cases x)
  case TurnOff
  assume "extends m m1"
  then show ?thesis
    unfolding TurnOff perform.simps turnOff_def Let_def split_def
    by (intro extends_intros) (simp_all add: reg_defs)
next
  case TurnOn
  assume "extends m m1"
  then show ?thesis
    unfolding TurnOn perform.simps turnOn_def Let_def
    by (intro extends_intros) (simp_all add: reg_defs)
next
  case (SetLsStateAll s)
  assume "extends m m1"
  then show ?thesis
    unfolding SetLsStateAll perform.simps setLsStateAll_def Let_def
    by (intro extends_intros) (simp_all add: reg_defs)
next
  case (SetLsState s r b)
  assume "arg_in_map x" "extends m m1"
  then show ?thesis
    unfolding SetLsState perform.simps setLsState_eq
    by (intro extends_intros) (simp_all add: reg_defs)
next
  case (SetGrpPwm v)
  assume "extends m m1"
  then show ?thesis
    unfolding SetGrpPwm perform.simps setGrpPwm_def
    by (intro extends_intros) (simp_all add: reg_defs)
qed (simp_all add: setPwm_def setBlinking_def extends_intros)

lemma extends_run: "list_all arg_in_map ops \<Longrightarrow> extends m m1 \<Longrightarrow> extends m (run ops m1)"
  by (induction ops arbitrary: m1) (simp_all add: extends_perform)


section \<open>Claims\<close>

text \<open>
  C1. For every channel bit offset in {0,2,4,6}, every state in {0,1,2,3} and every byte
  that the read of \<open>setLsState\<close> returns, the byte written back agrees with the byte read
  on the six bits outside the 2-bit field at that offset: \<open>setLsState\<close> performs one write
  of a byte \<open>newReg\<close> to the register, and
  \<open>newReg & ~(0b11 << offset) = prevReg & ~(0b11 << offset)\<close>.
\<close>

theorem setLsState_keeps_other_bits:
  assumes "lsBit \<in> {0, 2, 4, 6}" and "state \<le> 3"
  shows "\<exists>newReg.
           written (the_wire (setLsState state regLs lsBit m)) =
             written (the_wire (snd (readReg regLs m)))
               @ [(deviceAddress (driver m), [regLs, newReg])]
         \<and> newReg AND NOT (push_bit (unat lsBit) 3)
             = fst (readReg regLs m) AND NOT (push_bit (unat lsBit) 3)"
  using field_kept [OF assms(2)]
  by (simp add: setLsState_eq writeReg_eq readReg_eq)

theorem setLsState_keeps_other_bits_witness:
  "(2 :: u8) \<in> {0, 2, 4, 6} \<and> LS_STATE_BLNK1 \<le> 3
   \<and> (\<exists>newReg.
         written (the_wire (setLsState LS_STATE_BLNK1 REG_LS0 2 (bench 0 demo_regs []))) =
           written (the_wire (snd (readReg REG_LS0 (bench 0 demo_regs []))))
             @ [(deviceAddress (driver (bench 0 demo_regs [])), [REG_LS0, newReg])]
       \<and> newReg AND NOT (push_bit (unat (2 :: u8)) 3)
           = fst (readReg REG_LS0 (bench 0 demo_regs [])) AND NOT (push_bit (unat (2 :: u8)) 3))"
  using setLsState_keeps_other_bits [of 2 LS_STATE_BLNK1 REG_LS0 "bench 0 demo_regs []"]
  by (simp add: ls_state_defs)

text \<open>
  C2. \<open>turnOff()\<close> followed immediately by \<open>turnOn()\<close> restores each of the four LS
  registers (0x06 to 0x09) to the value it held before \<open>turnOff\<close>, on a bus where the
  chip answers at the driver's device address and no read response is forced, so that
  each of the four reads of \<open>turnOff\<close> returns the register's current value.
\<close>

theorem turnOff_turnOn_restores:
  assumes "chipAddress (the_wire m) = deviceAddress (driver m)"
    and "rxScript (the_wire m) = []"
  shows "chipRegs (the_wire (turnOn (turnOff m))) REG_LS0 = chipRegs (the_wire m) REG_LS0
       \<and> chipRegs (the_wire (turnOn (turnOff m))) REG_LS1 = chipRegs (the_wire m) REG_LS1
       \<and> chipRegs (the_wire (turnOn (turnOff m))) REG_LS2 = chipRegs (the_wire m) REG_LS2
       \<and> chipRegs (the_wire (turnOn (turnOff m))) REG_LS3 = chipRegs (the_wire m) REG_LS3"
  using assms
  by (simp add: the_wire_turnOn the_wire_turnOff driver_turnOff Let_def rdv_healthy wr_chipRegs
      reg_defs)

theorem turnOff_turnOn_restores_witness:
  "chipAddress (the_wire (bench 0 demo_regs [])) = deviceAddress (driver (bench 0 demo_regs []))
   \<and> rxScript (the_wire (bench 0 demo_regs [])) = []
   \<and> chipRegs (the_wire (turnOn (turnOff (bench 0 demo_regs [])))) REG_LS0 = 0x1B
   \<and> chipRegs (the_wire (turnOn (turnOff (bench 0 demo_regs [])))) REG_LS1 = 0xE4
   \<and> chipRegs (the_wire (turnOn (turnOff (bench 0 demo_regs [])))) REG_LS2 = 0x55
   \<and> chipRegs (the_wire (turnOn (turnOff (bench 0 demo_regs [])))) REG_LS3 = 0xFF"
  using turnOff_turnOn_restores [of "bench 0 demo_regs []"]
  by (simp add: bench_simps blank_wire_def demo_regs_def reg_defs)

text \<open>
  C3 (as stated, refuted). The claim says that after construction each saved LS byte is
  zero. The constructor assigns only the two PWM register addresses: over storage that
  held 0xAA the saved bytes are 0xAA, and a \<open>turnOn()\<close> issued before any \<open>turnOff()\<close>
  writes 0xAA, not 0x00, to the four LS registers.
\<close>

theorem saved_bytes_uninitialised:
  "saved (PCA9532_ctor (blank_storage 0xAA) REG_PWM0 REG_PWM1) = (0xAA, 0xAA, 0xAA, 0xAA)
   \<and> written (the_wire (turnOn (bench 0xAA zero_regs []))) =
       [(0x60, [0x06, 0xAA]), (0x60, [0x07, 0xAA]), (0x60, [0x08, 0xAA]), (0x60, [0x09, 0xAA])]"
  by (simp add: saved_def PCA9532_ctor_def blank_storage_def the_wire_turnOn Let_def bench_simps
      blank_wire_def reg_defs)

text \<open>
  C3 (amended). For a driver object whose storage held zero in the four saved LS bytes
  before construction, each of them is zero after construction and after any sequence
  of operations without \<open>turnOff()\<close>, and a \<open>turnOn()\<close> issued then writes the byte
  0x00 to LS0, LS1, LS2 and LS3.
\<close>

theorem zeroed_storage_turnOn_writes_zero:
  assumes "saved storage = (0, 0, 0, 0)" and "TurnOff \<notin> set ops"
  shows "saved (driver (run ops \<lparr>driver = PCA9532_ctor storage a b, bus = B\<rparr>)) = (0, 0, 0, 0)
       \<and> written (the_wire (turnOn (run ops \<lparr>driver = PCA9532_ctor storage a b, bus = B\<rparr>))) =
           written (the_wire (run ops \<lparr>driver = PCA9532_ctor storage a b, bus = B\<rparr>))
             @ [(deviceAddress (driver (run ops \<lparr>driver = PCA9532_ctor storage a b, bus = B\<rparr>)),
                   [REG_LS0, 0x00]),
                (deviceAddress (driver (run ops \<lparr>driver = PCA9532_ctor storage a b, bus = B\<rparr>)),
                   [REG_LS1, 0x00]),
                (deviceAddress (driver (run ops \<lparr>driver = PCA9532_ctor storage a b, bus = B\<rparr>)),
                   [REG_LS2, 0x00]),
                (deviceAddress (driver (run ops \<lparr>driver = PCA9532_ctor storage a b, bus = B\<rparr>)),
                   [REG_LS3, 0x00])]"
proof -
  let ?m = "run ops \<lparr>driver = PCA9532_ctor storage a b, bus = B\<rparr>"
  have "saved (PCA9532_ctor storage a b) = (0, 0, 0, 0)"
    using assms(1) by (simp add: saved_def PCA9532_ctor_def)
  then have z: "saved (driver ?m) = (0, 0, 0, 0)"
    using saved_run [OF assms(2)] by simp
  then show ?thesis
    by (simp add: the_wire_turnOn Let_def saved_def)
qed

theorem zeroed_storage_turnOn_writes_zero_witness:
  "saved (blank_storage 0) = (0, 0, 0, 0)
   \<and> TurnOff \<notin> set [Begin 0x60 0, SetLsStateAll LS_STATE_ON]
   \<and> written (the_wire (turnOn (run [Begin 0x60 0, SetLsStateAll LS_STATE_ON]
        \<lparr>driver = PCA9532_ctor (blank_storage 0) REG_PWM0 REG_PWM1,
         bus = (\<lambda>p. blank_wire zero_regs [])\<rparr>))) =
       [(0x60, [0x06, 0x55]), (0x60, [0x07, 0x55]), (0x60, [0x08, 0x55]), (0x60, [0x09, 0x55]),
        (0x60, [0x06, 0x00]), (0x60, [0x07, 0x00]), (0x60, [0x08, 0x00]), (0x60, [0x09, 0x00])]"
proof -
  have b: "PCA9532_begin 0x60 0
             \<lparr>driver = PCA9532_ctor (blank_storage 0) REG_PWM0 REG_PWM1,
              bus = (\<lambda>p. blank_wire zero_regs [])\<rparr> = bench 0 zero_regs []"
    by (simp add: bench_def)
  have h1: "saved (blank_storage 0) = (0, 0, 0, 0)"
    by (simp add: saved_def blank_storage_def)
  have h2: "TurnOff \<notin> set [Begin 0x60 0, SetLsStateAll LS_STATE_ON]"
    by simp
  show ?thesis
    using h1 h2 zeroed_storage_turnOn_writes_zero [OF h1 h2, of REG_PWM0 REG_PWM1
        "\<lambda>p. blank_wire zero_regs []"]
    apply (simp only: run.simps perform.simps b)
    apply (simp add: the_wire_setLsStateAll Let_def bench_simps blank_wire_def reg_defs
        ls_state_defs)
    done
qed

text \<open>
  C4 (as stated, refuted). The claim says that no sequence of operations makes the
  driver pass a register address outside 0x00 to 0x09 to the bus. \<open>setPwm(0x20, 0x80)\<close>
  sends the transaction 0x20, 0x80: the address is forwarded as the caller gave it.
\<close>

theorem setPwm_forwards_any_address:
  "written (the_wire (run [SetPwm 0x20 0x80] (bench 0 zero_regs []))) = [(0x60, [0x20, 0x80])]
   \<and> \<not> reg_in_map (0x60, [0x20, 0x80])"
  by (simp add: setPwm_def the_wire_writeReg bench_simps blank_wire_def reg_defs)

text \<open>
  C4 (amended). For every sequence of public operations in which each register address
  the caller hands to \<open>setPwm\<close>, \<open>setBlinking\<close> or \<open>setLsState\<close> lies within 0x00 to
  0x09, every transaction the driver adds on any bus starts with a register address
  within 0x00 to 0x09: the addresses the driver chooses itself are all in the map, and a
  caller's address is forwarded unchanged, without validation. That is, for every
  register address \<open>r\<close>, \<open>setPwm\<close> and \<open>setBlinking\<close> send the one transaction
  \<open>r, value\<close>, and \<open>setLsState\<close> sends \<open>r\<close> for its read and then \<open>r, newReg\<close>.
\<close>

theorem register_addresses_in_map:
  assumes "list_all arg_in_map ops"
  shows "(\<forall>p. \<exists>new. written (bus (run ops m) p) = written (bus m p) @ new
            \<and> list_all reg_in_map new)
       \<and> written (the_wire (setPwm r v m)) =
           written (the_wire m) @ [(deviceAddress (driver m), [r, v])]
       \<and> written (the_wire (setBlinking r v m)) =
           written (the_wire m) @ [(deviceAddress (driver m), [r, v])]
       \<and> (\<exists>newReg. written (the_wire (setLsState s r b m)) =
           written (the_wire m)
             @ [(deviceAddress (driver m), [r]), (deviceAddress (driver m), [r, newReg])])"
proof -
  have "\<forall>p. \<exists>new. written (bus (run ops m) p) = written (bus m p) @ new
            \<and> list_all reg_in_map new"
    using extends_run [OF assms extends_refl] by (simp add: extends_def)
  moreover have "written (the_wire (setPwm r v m)) =
      written (the_wire m) @ [(deviceAddress (driver m), [r, v])]"
    by (simp add: setPwm_def the_wire_writeReg)
  moreover have "written (the_wire (setBlinking r v m)) =
      written (the_wire m) @ [(deviceAddress (driver m), [r, v])]"
    by (simp add: setBlinking_def the_wire_writeReg)
  moreover have "\<exists>newReg. written (the_wire (setLsState s r b m)) =
      written (the_wire m)
        @ [(deviceAddress (driver m), [r]), (deviceAddress (driver m), [r, newReg])]"
    by (simp add: setLsState_eq the_wire_writeReg the_wire_readReg)
  ultimately show ?thesis by blast
qed

theorem register_addresses_in_map_witness:
  "list_all arg_in_map
     [SetPwm REG_PWM0 0x80, TurnOff, SetLsState LS_STATE_ON REG_LS1 2, SetBlinking REG_PSC1 151,
      TurnOn]
   \<and> (\<forall>p. \<exists>new.
         written (bus (run [SetPwm REG_PWM0 0x80, TurnOff, SetLsState LS_STATE_ON REG_LS1 2,
                            SetBlinking REG_PSC1 151, TurnOn] (bench 0 demo_regs [])) p) =
           written (bus (bench 0 demo_regs []) p) @ new
       \<and> list_all reg_in_map new)
   \<and> written (the_wire (setPwm REG_PWM0 0x80 (bench 0 demo_regs []))) = [(0x60, [0x03, 0x80])]
   \<and> written (the_wire (setBlinking REG_PWM0 0x80 (bench 0 demo_regs []))) =
       [(0x60, [0x03, 0x80])]"
proof -
  have h: "list_all arg_in_map
     [SetPwm REG_PWM0 0x80, TurnOff, SetLsState LS_STATE_ON REG_LS1 2, SetBlinking REG_PSC1 151,
      TurnOn]"
    by (simp add: reg_defs)
  note t = register_addresses_in_map [OF h, of "bench 0 demo_regs []" REG_PWM0 "0x80"]
  from t have a: "\<forall>p. \<exists>new.
         written (bus (run [SetPwm REG_PWM0 0x80, TurnOff, SetLsState LS_STATE_ON REG_LS1 2,
                            SetBlinking REG_PSC1 151, TurnOn] (bench 0 demo_regs [])) p) =
           written (bus (bench 0 demo_regs []) p) @ new
       \<and> list_all reg_in_map new"
    by (rule conjunct1)
  from t have b:
    "written (the_wire (setPwm REG_PWM0 0x80 (bench 0 demo_regs []))) = [(0x60, [0x03, 0x80])]"
    "written (the_wire (setBlinking REG_PWM0 0x80 (bench 0 demo_regs []))) =
       [(0x60, [0x03, 0x80])]"
    by (simp_all add: bench_simps blank_wire_def reg_defs)
  from h a b show ?thesis by (intro conjI)
qed

text \<open>
  C5. \<open>setLsStateAll(state)\<close> performs exactly four register writes, to 0x06, 0x07, 0x08
  and 0x09 in that order, each of the byte \<open>state | state<<2 | state<<4 | state<<6\<close>;
  \<open>setLsStateAll(LS_STATE_BLNK1)\<close> writes 0b11111111 to each of the four LS registers.
\<close>

theorem setLsStateAll_writes:
  "written (the_wire (setLsStateAll state m)) =
     written (the_wire m)
       @ [(deviceAddress (driver m),
             [0x06, state OR push_bit 2 state OR push_bit 4 state OR push_bit 6 state]),
          (deviceAddress (driver m),
             [0x07, state OR push_bit 2 state OR push_bit 4 state OR push_bit 6 state]),
          (deviceAddress (driver m),
             [0x08, state OR push_bit 2 state OR push_bit 4 state OR push_bit 6 state]),
          (deviceAddress (driver m),
             [0x09, state OR push_bit 2 state OR push_bit 4 state OR push_bit 6 state])]
   \<and> written (the_wire (setLsStateAll LS_STATE_BLNK1 m)) =
     written (the_wire m)
       @ [(deviceAddress (driver m), [0x06, 0xFF]), (deviceAddress (driver m), [0x07, 0xFF]),
          (deviceAddress (driver m), [0x08, 0xFF]), (deviceAddress (driver m), [0x09, 0xFF])]"
  by (simp add: the_wire_setLsStateAll Let_def reg_defs ls_state_defs)

text \<open>
  C6. \<open>turnOff(); turnOff(); turnOn()\<close> leaves all four LS registers at 0x00, whatever
  they held before the first \<open>turnOff\<close>: the second \<open>turnOff\<close> reads back the zeros the
  first one wrote and saves them, so the four saved bytes are zero (same bus as in C2).
\<close>

theorem double_turnOff_loses_state:
  assumes "chipAddress (the_wire m) = deviceAddress (driver m)"
    and "rxScript (the_wire m) = []"
  shows "chipRegs (the_wire (turnOn (turnOff (turnOff m)))) REG_LS0 = 0
       \<and> chipRegs (the_wire (turnOn (turnOff (turnOff m)))) REG_LS1 = 0
       \<and> chipRegs (the_wire (turnOn (turnOff (turnOff m)))) REG_LS2 = 0
       \<and> chipRegs (the_wire (turnOn (turnOff (turnOff m)))) REG_LS3 = 0
       \<and> storedRegLs0 (driver (turnOff (turnOff m))) = 0
       \<and> storedRegLs1 (driver (turnOff (turnOff m))) = 0
       \<and> storedRegLs2 (driver (turnOff (turnOff m))) = 0
       \<and> storedRegLs3 (driver (turnOff (turnOff m))) = 0"
  using assms
  by (simp add: the_wire_turnOn the_wire_turnOff driver_turnOff Let_def rdv_healthy wr_chipRegs
      reg_defs)

theorem double_turnOff_loses_state_witness:
  "chipAddress (the_wire (bench 0 demo_regs [])) = deviceAddress (driver (bench 0 demo_regs []))
   \<and> rxScript (the_wire (bench 0 demo_regs [])) = []
   \<and> chipRegs (the_wire (bench 0 demo_regs [])) REG_LS0 = 0x1B
   \<and> chipRegs (the_wire (turnOn (turnOff (turnOff (bench 0 demo_regs []))))) REG_LS0 = 0
   \<and> chipRegs (the_wire (turnOn (turnOff (turnOff (bench 0 demo_regs []))))) REG_LS1 = 0
   \<and> chipRegs (the_wire (turnOn (turnOff (turnOff (bench 0 demo_regs []))))) REG_LS2 = 0
   \<and> chipRegs (the_wire (turnOn (turnOff (turnOff (bench 0 demo_regs []))))) REG_LS3 = 0
   \<and> storedRegLs0 (driver (turnOff (turnOff (bench 0 demo_regs [])))) = 0"
  using double_turnOff_loses_state [of "bench 0 demo_regs []"]
  by (simp add: bench_simps blank_wire_def demo_regs_def reg_defs)

text \<open>
  C7. For every register address, \<open>readReg\<close> returns the byte received when exactly one
  byte is available after the 1-byte request, and otherwise 0xFF (the -1 of the source
  as a byte). So a read of a register that holds 0xFF, a read that received nothing and a
  read that received two bytes all return 0xFF.
\<close>

theorem readReg_result:
  "fst (readReg r m) =
     (if available (after_request r m) = 1 then hd (rxBuffer (after_request r m)) else 0xFF)
   \<and> fst (readReg REG_LS0 (bench 0 full_regs [])) = 0xFF
   \<and> fst (readReg REG_LS0 (bench 0 zero_regs [[]])) = 0xFF
   \<and> fst (readReg REG_LS0 (bench 0 zero_regs [[0x12, 0x34]])) = 0xFF"
  by (simp add: readReg_eq rdv_def after_request_def bench_simps blank_wire_def rd_rxBuffer
      available_def full_regs_def zero_regs_def)

text \<open>
  C8. For every byte \<open>v\<close>, \<open>setGrpPwm(v)\<close> performs exactly two register writes, first
  \<open>v\<close> to PWM0 (0x03) and then \<open>v\<close> to PWM1 (0x05); when the chip answers at the driver's
  device address, both PWM registers hold \<open>v\<close> afterwards.
\<close>

theorem setGrpPwm_writes:
  "written (the_wire (setGrpPwm v m)) =
     written (the_wire m)
       @ [(deviceAddress (driver m), [0x03, v]), (deviceAddress (driver m), [0x05, v])]
   \<and> (chipAddress (the_wire m) = deviceAddress (driver m) \<longrightarrow>
        chipRegs (the_wire (setGrpPwm v m)) REG_PWM0 = v
      \<and> chipRegs (the_wire (setGrpPwm v m)) REG_PWM1 = v)"
  by (simp add: setGrpPwm_def the_wire_writeReg wr_chipRegs reg_defs)

theorem setGrpPwm_writes_witness:
  "written (the_wire (setGrpPwm 0x80 (bench 0 zero_regs []))) =
     [(0x60, [0x03, 0x80]), (0x60, [0x05, 0x80])]
   \<and> chipAddress (the_wire (bench 0 zero_regs [])) = deviceAddress (driver (bench 0 zero_regs []))
   \<and> chipRegs (the_wire (setGrpPwm 0x80 (bench 0 zero_regs []))) REG_PWM0 = 0x80
   \<and> chipRegs (the_wire (setGrpPwm 0x80 (bench 0 zero_regs []))) REG_PWM1 = 0x80"
  using setGrpPwm_writes [of "0x80" "bench 0 zero_regs []"]
  by (simp add: bench_simps blank_wire_def)

text \<open>
  C9. \<open>turnOn\<close>, \<open>setPwm\<close>, \<open>setGrpPwm\<close>, \<open>setBlinking\<close>, \<open>setLsState\<close> and
  \<open>setLsStateAll\<close> leave every field of the driver object unchanged; \<open>begin\<close> leaves the
  four saved LS bytes (and the PWM register addresses) unchanged; \<open>turnOff\<close> leaves the
  device address and the transport reference (and the PWM register addresses) unchanged.
  So only \<open>turnOff\<close> modifies the saved bytes and only \<open>begin\<close> the device address and
  the transport reference, and two \<open>turnOn()\<close> calls in a row write the same four bytes
  twice.
\<close>

theorem driver_state_frame:
  "driver (turnOn m) = driver m
   \<and> driver (setPwm r v m) = driver m
   \<and> driver (setGrpPwm v m) = driver m
   \<and> driver (setBlinking r v m) = driver m
   \<and> driver (setLsState s r b m) = driver m
   \<and> driver (setLsStateAll s m) = driver m
   \<and> saved (driver (PCA9532_begin a p m)) = saved (driver m)
   \<and> regPwm1 (driver (PCA9532_begin a p m)) = regPwm1 (driver m)
   \<and> regPwm2 (driver (PCA9532_begin a p m)) = regPwm2 (driver m)
   \<and> deviceAddress (driver (turnOff m)) = deviceAddress (driver m)
   \<and> wire (driver (turnOff m)) = wire (driver m)
   \<and> regPwm1 (driver (turnOff m)) = regPwm1 (driver m)
   \<and> regPwm2 (driver (turnOff m)) = regPwm2 (driver m)
   \<and> written (the_wire (turnOn (turnOn m))) =
       written (the_wire m)
         @ [(deviceAddress (driver m), [REG_LS0, storedRegLs0 (driver m)]),
            (deviceAddress (driver m), [REG_LS1, storedRegLs1 (driver m)]),
            (deviceAddress (driver m), [REG_LS2, storedRegLs2 (driver m)]),
            (deviceAddress (driver m), [REG_LS3, storedRegLs3 (driver m)])]
         @ [(deviceAddress (driver m), [REG_LS0, storedRegLs0 (driver m)]),
            (deviceAddress (driver m), [REG_LS1, storedRegLs1 (driver m)]),
            (deviceAddress (driver m), [REG_LS2, storedRegLs2 (driver m)]),
            (deviceAddress (driver m), [REG_LS3, storedRegLs3 (driver m)])]"
  by (simp add: the_wire_turnOn Let_def driver_begin driver_turnOff saved_def)

text \<open>
  C10. \<open>setLsState\<close> ORs \<open>state << lsBit\<close> into the cleared byte without masking
  \<open>state\<close>: at offset 0 the byte written is \<open>(prevReg & ~0b11) | state\<close> for every
  \<open>state\<close>. With \<open>state = 4\<close>, offset 0 and LS0 reading 0x00 the byte written is 0x04,
  which differs from the byte read outside the addressed field: the field of the
  neighbouring channel (bits 3:2) now reads ON.
\<close>

theorem setLsState_unmasked_state:
  "written (the_wire (setLsState state regLs 0 m)) =
     written (the_wire (snd (readReg regLs m)))
       @ [(deviceAddress (driver m), [regLs, (fst (readReg regLs m) AND NOT 3) OR state])]
   \<and> fst (readReg REG_LS0 (bench 0 zero_regs [])) = 0x00
   \<and> written (the_wire (setLsState 4 REG_LS0 0 (bench 0 zero_regs []))) =
       [(0x60, [0x06]), (0x60, [0x06, 0x04])]
   \<and> (0x04 :: u8) AND NOT (push_bit 0 3) \<noteq> 0x00 AND NOT (push_bit 0 3)
   \<and> chipRegs (the_wire (setLsState 4 REG_LS0 0 (bench 0 zero_regs []))) REG_LS0 = 0x04
   \<and> drop_bit 2 (0x04 :: u8) AND 3 = LS_STATE_ON"
  by (simp add: setLsState_eq the_wire_writeReg the_wire_readReg readReg_eq rdv_healthy
      bench_simps blank_wire_def zero_regs_def reg_defs wr_chipRegs ls_state_defs)

end
